theory Spec2Isabelle
  imports Main "HOL-Library.Char_ord" "HOL-Library.List_Lexorder" "HOL-Library.AList"
    "HOL-Library.Log_Nat" "HOL-Library.Multiset"
begin

section \<open>Python strings\<close>

text \<open>
  A cell of an export is a Python \<^verbatim>\<open>str\<close>. It is modelled as a \<^typ>\<open>string\<close> of ASCII
  characters: the functions below do to the characters 0..127 what the Python methods
  do, and leave every other character alone.
\<close>

definition upper_char :: "char \<Rightarrow> char" where
  "upper_char c =
     (let n = (of_char c :: nat) in if 97 \<le> n \<and> n \<le> 122 then char_of (n - 32) else c)"

definition lower_char :: "char \<Rightarrow> char" where
  "lower_char c =
     (let n = (of_char c :: nat) in if 65 \<le> n \<and> n \<le> 90 then char_of (n + 32) else c)"

text \<open>\<^verbatim>\<open>s.upper()\<close> and \<^verbatim>\<open>s.lower()\<close>.\<close>

definition upper :: "string \<Rightarrow> string" where
  "upper s = map upper_char s"

definition lower :: "string \<Rightarrow> string" where
  "lower s = map lower_char s"

text \<open>
  The characters \<^verbatim>\<open>str.strip()\<close> removes: tab, line feed, vertical tab, form feed,
  carriage return, the four separators 28..31 and the space.
\<close>

definition is_space :: "char \<Rightarrow> bool" where
  "is_space c =
     (let n = (of_char c :: nat) in (9 \<le> n \<and> n \<le> 13) \<or> (28 \<le> n \<and> n \<le> 32))"

text \<open>\<^verbatim>\<open>s.strip()\<close>.\<close>

definition strip :: "string \<Rightarrow> string" where
  "strip s = rev (dropWhile is_space (rev (dropWhile is_space s)))"

text \<open>\<^verbatim>\<open>s.startswith(w)\<close>.\<close>

fun startswith :: "string \<Rightarrow> string \<Rightarrow> bool" where
  "startswith s [] = True"
| "startswith [] (c # w) = False"
| "startswith (d # s) (c # w) = (d = c \<and> startswith s w)"

text \<open>\<^verbatim>\<open>w in s\<close>: the string \<open>w\<close> occurs somewhere in \<open>s\<close>.\<close>

fun contains :: "string \<Rightarrow> string \<Rightarrow> bool" where
  "contains w [] = (w = [])"
| "contains w (c # s) = (startswith (c # s) w \<or> contains w s)"

text \<open>
  \<^verbatim>\<open>s.replace(w, '')\<close> for a non-empty \<open>w\<close>: one pass from the left, dropping every
  occurrence that does not overlap an earlier one.
\<close>

function remove_all :: "string \<Rightarrow> string \<Rightarrow> string" where
  "remove_all w [] = []"
| "remove_all w (c # s) =
     (if w \<noteq> [] \<and> startswith (c # s) w then remove_all w (drop (length w) (c # s))
      else c # remove_all w s)"
  by pat_completeness auto
termination
  by (relation "measure (\<lambda>(w, s). length s)") (auto simp: neq_Nil_conv)

section \<open>The regular expressions of the category table\<close>

text \<open>
  The patterns of \<^verbatim>\<open>CATEGORY_PATTERNS\<close> use literals, alternation, concatenation,
  \<^verbatim>\<open>.*\<close> and the negative lookahead \<^verbatim>\<open>(?!...)\<close>; groups only bracket. A pattern is
  matched at a position by backtracking: \<open>rmatch r s\<close> lists what is left of \<open>s\<close>
  after each way of matching \<open>r\<close> at its start, in the order the engine tries them.
  The dot matches every character but the line feed.
\<close>

datatype regex =
    Lit string
  | Alt regex regex
  | Seq regex regex
  | DotStar
  | NegLook regex

definition newline :: char where
  "newline = char_of (10 :: nat)"

fun dotstar :: "string \<Rightarrow> string list" where
  "dotstar [] = [[]]"
| "dotstar (c # s) = (if c = newline then [c # s] else dotstar s @ [c # s])"

fun rmatch :: "regex \<Rightarrow> string \<Rightarrow> string list" where
  "rmatch (Lit w) s = (if startswith s w then [drop (length w) s] else [])"
| "rmatch (Alt a b) s = rmatch a s @ rmatch b s"
| "rmatch (Seq a b) s = concat (map (rmatch b) (rmatch a s))"
| "rmatch DotStar s = dotstar s"
| "rmatch (NegLook r) s = (if rmatch r s = [] then [s] else [])"

text \<open>\<^verbatim>\<open>re.search(pattern, s)\<close> as a truth value: the pattern matches at some position.\<close>

fun re_search :: "regex \<Rightarrow> string \<Rightarrow> bool" where
  "re_search r [] = (rmatch r [] \<noteq> [])"
| "re_search r (c # s) = (rmatch r (c # s) \<noteq> [] \<or> re_search r s)"

section \<open>The Categorizer\<close>

text \<open>\<^verbatim>\<open>CATEGORY_PATTERNS\<close>, in the order of the source.\<close>

definition CATEGORY_PATTERNS :: "(regex \<times> string) list" where
  "CATEGORY_PATTERNS =
   [ \<comment> \<open>\<^verbatim>\<open>(PANEL|SERVICE.*PANEL|SUB PANEL)\<close>\<close>
     (Alt (Lit ''PANEL'') (Alt (Seq (Lit ''SERVICE'') (Seq DotStar (Lit ''PANEL''))) (Lit ''SUB PANEL'')),
      ''Panel Upgrades''),
     \<comment> \<open>\<^verbatim>\<open>SURGE\<close>\<close>
     (Lit ''SURGE'', ''Surge Protection''),
     \<comment> \<open>\<^verbatim>\<open>(E CAR|EV CIRCUIT|EV CHARGER)\<close>\<close>
     (Alt (Lit ''E CAR'') (Alt (Lit ''EV CIRCUIT'') (Lit ''EV CHARGER'')), ''EV Charging''),
     \<comment> \<open>\<^verbatim>\<open>HOT TUB\<close>\<close>
     (Lit ''HOT TUB'', ''Hot Tub Circuits''),
     \<comment> \<open>\<^verbatim>\<open>240V.*CKT(?!.*EV)\<close>\<close>
     (Seq (Lit ''240V'') (Seq DotStar (Seq (Lit ''CKT'') (NegLook (Seq DotStar (Lit ''EV''))))),
      ''Heavy Duty Circuits''),
     \<comment> \<open>\<^verbatim>\<open>OUTLET.*WP|WP.*OUTLET\<close>\<close>
     (Alt (Seq (Lit ''OUTLET'') (Seq DotStar (Lit ''WP''))) (Seq (Lit ''WP'') (Seq DotStar (Lit ''OUTLET''))),
      ''Exterior Outlets''),
     \<comment> \<open>\<^verbatim>\<open>(FLOOD|SOFFIT|COACH LT|LANDSCAPE)\<close>\<close>
     (Alt (Lit ''FLOOD'') (Alt (Lit ''SOFFIT'') (Alt (Lit ''COACH LT'') (Lit ''LANDSCAPE''))),
      ''Exterior Lighting''),
     \<comment> \<open>\<^verbatim>\<open>(RCAN|WAFER|RECESSED)\<close>\<close>
     (Alt (Lit ''RCAN'') (Alt (Lit ''WAFER'') (Lit ''RECESSED'')), ''Recessed Lighting''),
     \<comment> \<open>\<^verbatim>\<open>TAPE LT\<close>\<close>
     (Lit ''TAPE LT'', ''LED Tape Lighting''),
     \<comment> \<open>\<^verbatim>\<open>(OUTLET|SWITCH|DIMMER|RECEPTACLE)(?!.*WP)\<close>\<close>
     (Seq (Alt (Lit ''OUTLET'') (Alt (Lit ''SWITCH'') (Alt (Lit ''DIMMER'') (Lit ''RECEPTACLE''))))
          (NegLook (Seq DotStar (Lit ''WP''))),
      ''Outlets & Switches''),
     \<comment> \<open>\<^verbatim>\<open>(FIXTURE|LIGHT BOX|CHANDELIER|PENDANT)\<close>\<close>
     (Alt (Lit ''FIXTURE'') (Alt (Lit ''LIGHT BOX'') (Alt (Lit ''CHANDELIER'') (Lit ''PENDANT''))),
      ''Interior Lighting''),
     \<comment> \<open>\<^verbatim>\<open>(FAN|CEILING FAN)\<close>\<close>
     (Alt (Lit ''FAN'') (Lit ''CEILING FAN''), ''Ceiling Fans''),
     \<comment> \<open>\<^verbatim>\<open>(EXHAUST|BATH FAN|VENT FAN)\<close>\<close>
     (Alt (Lit ''EXHAUST'') (Alt (Lit ''BATH FAN'') (Lit ''VENT FAN'')), ''Bathrooms''),
     \<comment> \<open>\<^verbatim>\<open>(GEN |GENERATOR|18KW|22KW|24KW|26KW)\<close>\<close>
     (Alt (Lit ''GEN '') (Alt (Lit ''GENERATOR'') (Alt (Lit ''18KW'') (Alt (Lit ''22KW'')
        (Alt (Lit ''24KW'') (Lit ''26KW''))))),
      ''Home Generators''),
     \<comment> \<open>\<^verbatim>\<open>INTERLOCK\<close>\<close>
     (Lit ''INTERLOCK'', ''Portable Generator''),
     \<comment> \<open>\<^verbatim>\<open>AIR CONDITIONER|A/C|AC CIRCUIT\<close>\<close>
     (Alt (Lit ''AIR CONDITIONER'') (Alt (Lit ''A/C'') (Lit ''AC CIRCUIT'')), ''HVAC Circuits''),
     \<comment> \<open>\<^verbatim>\<open>SMOKE|CARBON|CO DETECTOR\<close>\<close>
     (Alt (Lit ''SMOKE'') (Alt (Lit ''CARBON'') (Lit ''CO DETECTOR'')), ''Safety Devices''),
     \<comment> \<open>\<^verbatim>\<open>GFCI|GFI\<close>\<close>
     (Alt (Lit ''GFCI'') (Lit ''GFI''), ''GFCI Protection''),
     \<comment> \<open>\<^verbatim>\<open>BREAKER\<close>\<close>
     (Lit ''BREAKER'', ''Breakers'') ]"

text \<open>
  The loop of \<^verbatim>\<open>categorize_package\<close>: the category of the first pattern found in
  the name, \<^verbatim>\<open>'Other Services'\<close> when the list is exhausted.
\<close>

fun first_category :: "(regex \<times> string) list \<Rightarrow> string \<Rightarrow> string" where
  "first_category [] name_upper = ''Other Services''"
| "first_category ((pattern, category) # rest) name_upper =
     (if re_search pattern name_upper then category else first_category rest name_upper)"

definition categorize_package :: "string \<Rightarrow> string" where
  "categorize_package name = first_category CATEGORY_PATTERNS (upper name)"

section \<open>Python floats\<close>

text \<open>
  A Python \<^verbatim>\<open>float\<close> is an IEEE binary64 value: a finite number (a rational of the
  form \<open>m * 2^e\<close>), one of the two infinities, or NaN. The two zeros are one value
  here (they compare equal), and so are the integer 0 and the float 0.0 that
  \<^verbatim>\<open>clean_price\<close> and \<^verbatim>\<open>clean_hours\<close> return.
\<close>

datatype pyfloat = Fin rat | PInf | NInf | NaN

text \<open>The comparisons \<^verbatim>\<open><\<close> and \<^verbatim>\<open><=\<close>: every comparison with NaN is false.\<close>

fun pf_lt :: "pyfloat \<Rightarrow> pyfloat \<Rightarrow> bool" where
  "pf_lt (Fin a) (Fin b) = (a < b)"
| "pf_lt (Fin a) PInf = True"
| "pf_lt NInf (Fin b) = True"
| "pf_lt NInf PInf = True"
| "pf_lt x y = False"

fun pf_le :: "pyfloat \<Rightarrow> pyfloat \<Rightarrow> bool" where
  "pf_le (Fin a) (Fin b) = (a \<le> b)"
| "pf_le (Fin a) PInf = True"
| "pf_le NInf (Fin b) = True"
| "pf_le NInf PInf = True"
| "pf_le NInf NInf = True"
| "pf_le PInf PInf = True"
| "pf_le x y = False"

subsection \<open>Rounding to binary64\<close>

definition pow2 :: "int \<Rightarrow> rat" where
  "pow2 e = (if 0 \<le> e then 2 ^ nat e else 1 / 2 ^ nat (- e))"

definition pow10 :: "int \<Rightarrow> rat" where
  "pow10 e = (if 0 \<le> e then 10 ^ nat e else 1 / 10 ^ nat (- e))"

text \<open>For \<open>0 < q\<close>, the exponent \<open>e\<close> with \<open>2^e \<le> q < 2^(e+1)\<close>.\<close>

definition ilog2 :: "rat \<Rightarrow> int" where
  "ilog2 q =
     (let (n, d) = quotient_of q; e0 = bitlen n - bitlen d
      in if pow2 e0 \<le> q then e0 else e0 - 1)"

definition round_half_even :: "rat \<Rightarrow> int" where
  "round_half_even q =
     (let f = \<lfloor>q\<rfloor>; r = q - of_int f
      in if r < 1 / 2 then f else if 1 / 2 < r then f + 1 else if even f then f else f + 1)"

text \<open>
  The nearest binary64 value of a rational, ties to even. The significand \<open>m\<close> has 53
  bits at the exponent \<open>e\<close> of the number, which is not taken below \<open>-1022\<close> (the
  subnormal range). The result is an infinity when the exponent is beyond 1023, or is
  1023 and rounding carried the significand to \<open>2^53\<close>.
\<close>

definition round_binary64 :: "rat \<Rightarrow> pyfloat" where
  "round_binary64 q =
     (if q = 0 then Fin 0
      else
        let a = \<bar>q\<bar>;
            e = max (ilog2 a) (- 1022);
            m = round_half_even (a * pow2 (52 - e))
        in if 1023 < e \<or> (e = 1023 \<and> m = 9007199254740992)
           then (if q < 0 then NInf else PInf)
           else Fin ((if q < 0 then - 1 else 1) * of_int m * pow2 (e - 52)))"

subsection \<open>\<^verbatim>\<open>float(s)\<close> of a string\<close>

definition is_digit :: "char \<Rightarrow> bool" where
  "is_digit c = (let n = (of_char c :: nat) in 48 \<le> n \<and> n \<le> 57)"

definition digit_val :: "char \<Rightarrow> int" where
  "digit_val c = of_char c - 48"

definition digits_val :: "string \<Rightarrow> int" where
  "digits_val ds = foldl (\<lambda>a c. 10 * a + digit_val c) 0 ds"

text \<open>
  \<^verbatim>\<open>float\<close> skips the white space of the C locale around the number (tab to carriage
  return, and the space), which is less than \<^verbatim>\<open>str.strip()\<close> removes.
\<close>

definition is_float_space :: "char \<Rightarrow> bool" where
  "is_float_space c = (let n = (of_char c :: nat) in (9 \<le> n \<and> n \<le> 13) \<or> n = 32)"

definition float_strip :: "string \<Rightarrow> string" where
  "float_strip s = rev (dropWhile is_float_space (rev (dropWhile is_float_space s)))"

text \<open>An underscore is accepted between two digits only; \<open>prev\<close> is the character before.\<close>

fun underscores_ok :: "char \<Rightarrow> string \<Rightarrow> bool" where
  "underscores_ok prev [] = (prev \<noteq> CHR ''_'')"
| "underscores_ok prev (c # s) =
     ((if c = CHR ''_'' then is_digit prev
       else if prev = CHR ''_'' then is_digit c else True)
      \<and> underscores_ok c s)"

text \<open>An optional sign: whether it is a minus, and the rest.\<close>

definition take_sign :: "string \<Rightarrow> bool \<times> string" where
  "take_sign s =
     (case s of
        [] \<Rightarrow> (False, [])
      | c # r \<Rightarrow> if c = CHR ''-'' then (True, r) else if c = CHR ''+'' then (False, r) else (False, s))"

text \<open>What follows the significand: nothing, or \<^verbatim>\<open>e\<close>, an optional sign and digits.\<close>

definition parse_exponent :: "string \<Rightarrow> int option" where
  "parse_exponent s =
     (case s of
        [] \<Rightarrow> Some 0
      | c # r \<Rightarrow>
          if c = CHR ''e'' \<or> c = CHR ''E'' then
            (let (neg, ds) = take_sign r
             in if ds \<noteq> [] \<and> list_all is_digit ds
                then Some (if neg then - digits_val ds else digits_val ds)
                else None)
          else None)"

text \<open>
  A decimal literal: digits, an optional point and digits (a digit on at least one side
  of the point), an optional exponent; its exact value.
\<close>

definition parse_decimal :: "string \<Rightarrow> rat option" where
  "parse_decimal s =
     (let ip = takeWhile is_digit s;
          r1 = dropWhile is_digit s;
          (fp, r2) =
            (case r1 of
               [] \<Rightarrow> ([], [])
             | c # r \<Rightarrow>
                 if c = CHR ''.'' then (takeWhile is_digit r, dropWhile is_digit r) else ([], r1))
      in if ip = [] \<and> fp = [] then None
         else
           case parse_exponent r2 of
             None \<Rightarrow> None
           | Some e \<Rightarrow> Some (of_int (digits_val (ip @ fp)) * pow10 (e - int (length fp))))"

text \<open>
  \<^verbatim>\<open>float(s)\<close>: \<open>None\<close> is the \<^verbatim>\<open>ValueError\<close>. The words \<^verbatim>\<open>inf\<close>, \<^verbatim>\<open>infinity\<close> and
  \<^verbatim>\<open>nan\<close> are accepted in any case, with an optional sign.
\<close>

definition py_float :: "string \<Rightarrow> pyfloat option" where
  "py_float s =
     (let t = float_strip s
      in if \<not> underscores_ok (char_of (0 :: nat)) t then None
         else
           let (neg, body) = take_sign (filter (\<lambda>c. c \<noteq> CHR ''_'') t);
               w = lower body
           in if w = ''inf'' \<or> w = ''infinity'' then Some (if neg then NInf else PInf)
              else if w = ''nan'' then Some NaN
              else
                case parse_decimal body of
                  None \<Rightarrow> None
                | Some q \<Rightarrow> Some (round_binary64 (if neg then - q else q)))"

section \<open>Cleaning prices and hours\<close>

text \<open>
  \<^verbatim>\<open>process_crm_data\<close> passes \<^verbatim>\<open>clean_price\<close> and \<^verbatim>\<open>clean_hours\<close> a cell of the row, or
  the integer 0 when the header did not resolve the column.
\<close>

datatype pyarg = Str string | Zero

text \<open>\<^verbatim>\<open>not x\<close>: the empty string and the integer 0 are false.\<close>

fun falsy :: "pyarg \<Rightarrow> bool" where
  "falsy (Str s) = (s = [])"
| "falsy Zero = True"

text \<open>\<^verbatim>\<open>str(x)\<close>.\<close>

fun py_str :: "pyarg \<Rightarrow> string" where
  "py_str (Str s) = s"
| "py_str Zero = ''0''"

text \<open>\<^verbatim>\<open>re.sub(r'[,$]', '', s)\<close>.\<close>

definition drop_comma_dollar :: "string \<Rightarrow> string" where
  "drop_comma_dollar s = filter (\<lambda>c. c \<noteq> CHR '','' \<and> c \<noteq> CHR ''$'') s"

definition clean_price :: "pyarg \<Rightarrow> pyfloat" where
  "clean_price price_str =
     (if falsy price_str then Fin 0
      else
        case py_float (drop_comma_dollar (py_str price_str)) of
          Some x \<Rightarrow> x
        | None \<Rightarrow> Fin 0)"

definition clean_hours :: "pyarg \<Rightarrow> pyfloat" where
  "clean_hours hours_str =
     (if falsy hours_str then Fin 0
      else
        case py_float (py_str hours_str) of
          Some x \<Rightarrow> x
        | None \<Rightarrow> Fin 0)"

section \<open>Errors\<close>

text \<open>
  The exceptions a run can meet: an index out of range, the \<^verbatim>\<open>ValueError\<close> of
  \<^verbatim>\<open>parse_xml_spreadsheet\<close> with its message, and whatever a library reader raises on
  a file it cannot read.
\<close>

datatype error = IndexError | ValueError string | ReadError string

text \<open>\<^verbatim>\<open>xs[i]\<close> for an index that is not negative.\<close>

definition getitem :: "'a list \<Rightarrow> nat \<Rightarrow> error + 'a" where
  "getitem xs i = (if i < length xs then Inr (xs ! i) else Inl IndexError)"

text \<open>Sequencing: an exception ends the computation.\<close>

definition and_then :: "error + 'a \<Rightarrow> ('a \<Rightarrow> error + 'b) \<Rightarrow> error + 'b" where
  "and_then r f = (case r of Inl e \<Rightarrow> Inl e | Inr x \<Rightarrow> f x)"

section \<open>The Header Resolver\<close>

text \<open>
  \<^verbatim>\<open>col_map\<close> is a dictionary from field keys to column indices, kept as an association
  list in insertion order: \<^const>\<open>AList.update\<close> overwrites the value of a key that is
  present and appends a new key, as the assignment \<^verbatim>\<open>col_map[k] = i\<close> does.
\<close>

type_synonym col_map = "(string \<times> nat) list"

text \<open>The \<^verbatim>\<open>if\<close>/\<^verbatim>\<open>elif\<close> chain of the header loop: the key a lowercased header cell sets.\<close>

definition header_key :: "string \<Rightarrow> string option" where
  "header_key h_lower =
     (if contains ''internal id'' h_lower then Some ''id''
      else if h_lower = ''name'' then Some ''name''
      else if contains ''sales price'' h_lower then Some ''price''
      else if contains ''labor hours'' h_lower then Some ''hours''
      else if contains ''labor cost'' h_lower then Some ''labor_cost''
      else if contains ''description'' h_lower then Some ''description''
      else if contains ''show on mobile'' h_lower then Some ''show_mobile''
      else None)"

text \<open>The loop \<^verbatim>\<open>for i, h in enumerate(header)\<close>, from index \<open>i\<close> on.\<close>

fun header_loop :: "col_map \<Rightarrow> nat \<Rightarrow> string list \<Rightarrow> col_map" where
  "header_loop col_map i [] = col_map"
| "header_loop col_map i (h # header) =
     header_loop
       (case header_key (lower h) of
          Some k \<Rightarrow> AList.update k i col_map
        | None \<Rightarrow> col_map)
       (Suc i) header"

text \<open>The header row stripped cell by cell, and the map the loop builds from it.\<close>

definition resolve_header :: "string list \<Rightarrow> col_map" where
  "resolve_header row0 = header_loop [] 0 (map strip row0)"

text \<open>\<^verbatim>\<open>col_map.get(key, d)\<close>; \<^verbatim>\<open>col_map.get(key)\<close> is \<^term>\<open>map_of col_map key\<close>.\<close>

definition dict_get :: "col_map \<Rightarrow> string \<Rightarrow> nat \<Rightarrow> nat" where
  "dict_get col_map key d = (case map_of col_map key of Some i \<Rightarrow> i | None \<Rightarrow> d)"

text \<open>\<^verbatim>\<open>max(col_map.values(), default=0)\<close>.\<close>

definition max_values :: "col_map \<Rightarrow> nat" where
  "max_values col_map = (case map snd col_map of [] \<Rightarrow> 0 | v # vs \<Rightarrow> fold max vs v)"

section \<open>The Record Normalizer\<close>

record package =
  pkg_id :: string
  pkg_name :: string
  displayName :: string
  price :: pyfloat
  laborHours :: pyfloat
  description :: string
  category :: string
  tier :: "unit option"
  upsellTo :: "string list"

text \<open>
  One field read of \<^verbatim>\<open>process_crm_data\<close>,
  \<^verbatim>\<open>row[col_map.get(key, d)] if col_map.get(key) is not None else alt\<close>. The cell is
  handed on through \<open>wrap\<close>: as it is where the alternative is a string, as an argument
  of \<^verbatim>\<open>clean_price\<close> or \<^verbatim>\<open>clean_hours\<close> where the alternative is the integer 0.
\<close>

definition read_field :: "col_map \<Rightarrow> string list \<Rightarrow> string \<Rightarrow> nat \<Rightarrow> 'a \<Rightarrow> (string \<Rightarrow> 'a) \<Rightarrow> error + 'a" where
  "read_field col_map row key d alt wrap =
     (if map_of col_map key \<noteq> None
      then and_then (getitem row (dict_get col_map key d)) (\<lambda>c. Inr (wrap c))
      else Inr alt)"

text \<open>\<^verbatim>\<open>re.sub(r'^(AMSFL_|GENFL_)', '', name)\<close>.\<close>

definition drop_vendor_prefix :: "string \<Rightarrow> string" where
  "drop_vendor_prefix name =
     (if startswith name ''AMSFL_'' \<or> startswith name ''GENFL_'' then drop 6 name else name)"

text \<open>
  The body of the row loop: \<open>Inr None\<close> is a \<^verbatim>\<open>continue\<close>, \<open>Inr (Some p)\<close> the package
  appended, \<open>Inl e\<close> an exception.
\<close>

definition process_row :: "col_map \<Rightarrow> string list \<Rightarrow> error + package option" where
  "process_row col_map row =
     (if length row < max_values col_map + 1 then Inr None
      else
        and_then (read_field col_map row ''name'' 1 [] (\<lambda>c. c)) (\<lambda>name.
        if name = [] \<or> strip name = [] then Inr None
        else
          and_then (read_field col_map row ''show_mobile'' 6 ''Yes'' (\<lambda>c. c)) (\<lambda>show_mobile.
          if show_mobile \<noteq> [] \<and> contains ''no'' (lower show_mobile) then Inr None
          else
            and_then (read_field col_map row ''price'' 5 Zero Str) (\<lambda>price_arg.
            let price_val = clean_price price_arg
            in if pf_le price_val (Fin 0) then Inr None
               else
                 let display_name = strip (drop_vendor_prefix name);
                     display_name = strip (remove_all ''INSTALL '' display_name)
                 in and_then (read_field col_map row ''id'' 0 [] (\<lambda>c. c)) (\<lambda>ident.
                    and_then (read_field col_map row ''hours'' 3 Zero Str) (\<lambda>hours_arg.
                    and_then (read_field col_map row ''description'' 8 [] (\<lambda>c. c)) (\<lambda>descr.
                    Inr (Some
                      \<lparr> pkg_id = ident,
                        pkg_name = name,
                        displayName = display_name,
                        price = price_val,
                        laborHours = clean_hours hours_arg,
                        description = descr,
                        category = categorize_package name,
                        tier = None,
                        upsellTo = [] \<rparr>))))))))"

text \<open>The loop \<^verbatim>\<open>for row in rows[1:]\<close> with the list \<^verbatim>\<open>packages\<close> it appends to.\<close>

fun process_rows :: "col_map \<Rightarrow> string list list \<Rightarrow> package list \<Rightarrow> error + package list" where
  "process_rows col_map [] packages = Inr packages"
| "process_rows col_map (row # rows) packages =
     (case process_row col_map row of
        Inl e \<Rightarrow> Inl e
      | Inr None \<Rightarrow> process_rows col_map rows packages
      | Inr (Some p) \<Rightarrow> process_rows col_map rows (packages @ [p]))"

definition process_crm_data :: "string list list \<Rightarrow> error + package list" where
  "process_crm_data rows =
     (case rows of
        [] \<Rightarrow> Inr []
      | row0 # data \<Rightarrow> process_rows (resolve_header row0) data [])"

section \<open>The Aggregator\<close>

text \<open>\<^verbatim>\<open>get_category_icon\<close>: the table, and the lookup with its default.\<close>

definition icons :: "(string \<times> string) list" where
  "icons =
   [ (''Panel Upgrades'', ''zap''),
     (''Surge Protection'', ''shield''),
     (''EV Charging'', ''battery-charging''),
     (''Hot Tub Circuits'', ''droplet''),
     (''Heavy Duty Circuits'', ''plug''),
     (''Exterior Outlets'', ''sun''),
     (''Exterior Lighting'', ''sun''),
     (''Recessed Lighting'', ''circle''),
     (''LED Tape Lighting'', ''minus''),
     (''Outlets & Switches'', ''toggle-right''),
     (''Interior Lighting'', ''lamp''),
     (''Ceiling Fans'', ''wind''),
     (''Bathrooms'', ''droplet''),
     (''Home Generators'', ''power''),
     (''Portable Generator'', ''battery''),
     (''HVAC Circuits'', ''thermometer''),
     (''Safety Devices'', ''alert-circle''),
     (''GFCI Protection'', ''shield''),
     (''Breakers'', ''square'') ]"

definition get_category_icon :: "string \<Rightarrow> string" where
  "get_category_icon cat = (case map_of icons cat of Some i \<Rightarrow> i | None \<Rightarrow> ''package'')"

text \<open>
  The value the \<^verbatim>\<open>defaultdict\<close> holds per category: the list under \<^verbatim>\<open>'packages'\<close> and
  the number under \<^verbatim>\<open>'startingAt'\<close>. The dictionary itself is an association list in
  insertion order, a missing key read as \<^verbatim>\<open>{'packages': [], 'startingAt': inf}\<close>.
\<close>

type_synonym cat_data = "package list \<times> pyfloat"

text \<open>The body of the loop \<^verbatim>\<open>for pkg in packages\<close>.\<close>

definition add_package :: "package \<Rightarrow> (string \<times> cat_data) list \<Rightarrow> (string \<times> cat_data) list" where
  "add_package pkg categories =
     (let cat = category pkg;
          (pkgs, starting) = (case map_of categories cat of Some d \<Rightarrow> d | None \<Rightarrow> ([], PInf))
      in AList.update cat
           (pkgs @ [pkg], if pf_lt (price pkg) starting then price pkg else starting)
           categories)"

text \<open>
  \<^verbatim>\<open>data['packages'].sort(key=lambda x: x['price'])\<close>. The sort is stable and compares
  keys with \<^verbatim>\<open><\<close>: each record, in the order of the list, goes before the first record
  of a greater price. Where \<^verbatim>\<open><\<close> orders the keys this is what every stable sort
  returns; with a NaN among the keys the order CPython returns is that of its merge
  strategy, which is not modelled.
\<close>

fun insort_price :: "package \<Rightarrow> package list \<Rightarrow> package list" where
  "insort_price x [] = [x]"
| "insort_price x (y # ys) =
     (if pf_lt (price x) (price y) then x # y # ys else y # insort_price x ys)"

definition sort_by_price :: "package list \<Rightarrow> package list" where
  "sort_by_price pkgs = fold insort_price pkgs []"

record category_group =
  grp_name :: string
  startingAt :: pyfloat
  packages :: "package list"
  icon :: string

text \<open>The body of the loop over the sorted items.\<close>

definition make_group :: "string \<times> cat_data \<Rightarrow> category_group" where
  "make_group item =
     (case item of (name, pkgs, starting) \<Rightarrow>
        \<lparr> grp_name = name,
          startingAt = starting,
          packages = sort_by_price pkgs,
          icon = get_category_icon name \<rparr>)"

text \<open>
  \<^verbatim>\<open>sorted(categories.items())\<close> orders the pairs by their first component, the category
  name, under Python's string order (code point by code point, a prefix first); the
  names of a dictionary's items are distinct, so the second components are never
  compared.
\<close>

definition sorted_items :: "(string \<times> cat_data) list \<Rightarrow> (string \<times> cat_data) list" where
  "sorted_items items = sort_key fst items"

definition organize_by_category :: "package list \<Rightarrow> category_group list" where
  "organize_by_category pkgs = map make_group (sorted_items (fold add_package pkgs []))"

section \<open>The Row Source Adapter and the run\<close>

text \<open>
  What \<^verbatim>\<open>ET.parse\<close> returns: a tree of elements, each with its tag (the namespace in
  braces before the local name), its text and its children.
\<close>

datatype element = Element (elem_tag: string) (elem_text: "string option") (elem_children: "element list")

text \<open>\<^verbatim>\<open>e.iter()\<close>: the element and its descendants in document order.\<close>

fun iter :: "element \<Rightarrow> element list" where
  "iter (Element t x cs) = Element t x cs # concat (map iter cs)"

definition ss :: "string \<Rightarrow> string" where
  "ss local_name = ''{urn:schemas-microsoft-com:office:spreadsheet}'' @ local_name"

text \<open>\<^verbatim>\<open>e.find('.//ss:Name', ns)\<close>: the first descendant of that qualified name.\<close>

definition find_descendant :: "string \<Rightarrow> element \<Rightarrow> element option" where
  "find_descendant local_name e = List.find (\<lambda>x. elem_tag x = ss local_name) (tl (iter e))"

text \<open>The first element of the tree whose tag contains the word.\<close>

definition find_by_word :: "string \<Rightarrow> element \<Rightarrow> element option" where
  "find_by_word word xml_root = List.find (\<lambda>x. contains word (elem_tag x)) (iter xml_root)"

text \<open>The text of a cell: that of its first \<^verbatim>\<open>Data\<close> element, empty when there is none.\<close>

definition cell_data :: "element \<Rightarrow> string" where
  "cell_data cell =
     (case List.find (\<lambda>d. contains ''Data'' (elem_tag d)) (iter cell) of
        None \<Rightarrow> []
      | Some d \<Rightarrow> (case elem_text d of None \<Rightarrow> [] | Some t \<Rightarrow> t))"

definition table_rows :: "element \<Rightarrow> string list list" where
  "table_rows table =
     filter (\<lambda>cells. cells \<noteq> [])
       (map (\<lambda>row. map cell_data (filter (\<lambda>c. contains ''Cell'' (elem_tag c)) (iter row)))
          (filter (\<lambda>r. contains ''Row'' (elem_tag r)) (iter table)))"

text \<open>
  \<^verbatim>\<open>parse_xml_spreadsheet\<close>, given what \<^verbatim>\<open>ET.parse(filepath)\<close> returned or raised.
\<close>

definition parse_xml_spreadsheet :: "error + element \<Rightarrow> error + string list list" where
  "parse_xml_spreadsheet parsed =
     and_then parsed (\<lambda>xml_root.
       let worksheet =
             (case find_descendant ''Worksheet'' xml_root of
                Some w \<Rightarrow> Some w
              | None \<Rightarrow> find_by_word ''Worksheet'' xml_root);
           table = (case worksheet of Some w \<Rightarrow> find_descendant ''Table'' w | None \<Rightarrow> None);
           table = (case table of Some t \<Rightarrow> Some t | None \<Rightarrow> find_by_word ''Table'' xml_root)
       in case table of
            None \<Rightarrow> Inl (ValueError ''Could not find Table element in XML'')
          | Some t \<Rightarrow> Inr (table_rows t))"

record pricebook =
  version :: string
  lastUpdated :: "unit option"
  categories :: "category_group list"

text \<open>
  \<^verbatim>\<open>main\<close> from the read of the input file to the write of the price book. The library
  readers and the serializer are parameters: \<open>ET_parse\<close> and \<open>csv_rows\<close> give what
  \<^verbatim>\<open>ET.parse\<close> and \<^verbatim>\<open>parse_csv\<close> make of the file's content, \<open>json_dump\<close> the text
  \<^verbatim>\<open>json.dump\<close> writes. The state is the content of \<^verbatim>\<open>data/pricebook.json\<close>, \<open>None\<close>
  while the file does not exist; the result is the exception that ended the run, if any.
\<close>

definition main :: "(string \<Rightarrow> error + element) \<Rightarrow> (string \<Rightarrow> error + string list list) \<Rightarrow>
    (pricebook \<Rightarrow> string) \<Rightarrow> string \<Rightarrow> string option \<Rightarrow> (error + unit) \<times> string option" where
  "main ET_parse csv_rows json_dump content out_file =
     (let start = take 100 content;
          parsed =
            (if contains ''<?xml'' start \<or> contains ''<Workbook'' start
             then parse_xml_spreadsheet (ET_parse content)
             else csv_rows content)
      in case and_then parsed process_crm_data of
           Inl e \<Rightarrow> (Inl e, out_file)
         | Inr pkgs \<Rightarrow>
             (Inr (),
              Some (json_dump
                \<lparr> version = ''1.0'',
                  lastUpdated = None,
                  categories = organize_by_category pkgs \<rparr>)))"

section \<open>The Record Normalizer as a filter and a map\<close>

text \<open>
  The loop of \<^verbatim>\<open>process_crm_data\<close> in one piece each: what a field read yields
  (\<open>field_value\<close>), the condition under which the loop reaches \<^verbatim>\<open>packages.append\<close>
  (\<open>emits\<close>, with the tests of the source), and the record it appends
  (\<open>make_package\<close>). \<open>process_row_eq\<close> and \<open>process_crm_data_eq\<close> prove that the
  loop computes exactly this, without an exception.
\<close>

definition field_value :: "col_map \<Rightarrow> string list \<Rightarrow> string \<Rightarrow> 'a \<Rightarrow> (string \<Rightarrow> 'a) \<Rightarrow> 'a" where
  "field_value col_map row key alt wrap =
     (case map_of col_map key of Some i \<Rightarrow> wrap (row ! i) | None \<Rightarrow> alt)"

definition emits :: "col_map \<Rightarrow> string list \<Rightarrow> bool" where
  "emits col_map row =
     (max_values col_map + 1 \<le> length row
      \<and> strip (field_value col_map row ''name'' [] (\<lambda>c. c)) \<noteq> []
      \<and> \<not> contains ''no'' (lower (field_value col_map row ''show_mobile'' ''Yes'' (\<lambda>c. c)))
      \<and> \<not> pf_le (clean_price (field_value col_map row ''price'' Zero Str)) (Fin 0))"


text \<open>
  The four conditions as the specification words them: the name is not blank, the
  visibility value does not contain \<^verbatim>\<open>no\<close>, the cleaned price is greater than 0, the
  row is wide enough. \<open>emits_eq_claimed_unless_nan\<close> compares the two.
\<close>

definition claimed_emits :: "col_map \<Rightarrow> string list \<Rightarrow> bool" where
  "claimed_emits col_map row =
     (strip (field_value col_map row ''name'' [] (\<lambda>c. c)) \<noteq> []
      \<and> \<not> contains ''no'' (lower (field_value col_map row ''show_mobile'' ''Yes'' (\<lambda>c. c)))
      \<and> pf_lt (Fin 0) (clean_price (field_value col_map row ''price'' Zero Str))
      \<and> max_values col_map + 1 \<le> length row)"

section \<open>Notions for the Aggregator's properties\<close>



section \<open>The Categorizer: first match in table order\<close>

lemma first_category_first_match:
  "i < length ps \<Longrightarrow> re_search (fst (ps ! i)) s \<Longrightarrow> (\<forall>j<i. \<not> re_search (fst (ps ! j)) s)
   \<Longrightarrow> first_category ps s = snd (ps ! i)"
proof (induction ps arbitrary: i)
  case Nil
  then show ?case by simp
next
  case (Cons pc ps)
  obtain p c where pc: "pc = (p, c)" by (cases pc)
  show ?case
  proof (cases i)
    case 0
    with Cons.prems pc show ?thesis by simp
  next
    case (Suc k)
    from Cons.prems Suc have "\<not> re_search p s" using pc by auto
    moreover from Cons.prems Suc have "k < length ps" "re_search (fst (ps ! k)) s" by auto
    moreover from Cons.prems Suc have "\<forall>j<k. \<not> re_search (fst (ps ! j)) s" by auto
    ultimately show ?thesis using Cons.IH[of k] pc Suc by simp
  qed
qed

lemma first_category_no_match:
  "(\<forall>i<length ps. \<not> re_search (fst (ps ! i)) s) \<Longrightarrow> first_category ps s = ''Other Services''"
proof (induction ps)
  case Nil
  then show ?case by simp
next
  case (Cons pc ps)
  obtain p c where pc: "pc = (p, c)" by (cases pc)
  from Cons.prems have "\<not> re_search p s" using pc by auto
  moreover from Cons.prems have "\<forall>i<length ps. \<not> re_search (fst (ps ! i)) s" by auto
  ultimately show ?case using Cons.IH pc by simp
qed

text \<open>
  C4. The category of a name depends on the name alone: it is uppercased, the rules of
  the table are tried in order, and the category is that of the first rule whose pattern
  is found in the uppercased name; when no rule's pattern is found the category is
  \<^verbatim>\<open>Other Services\<close>.
\<close>

theorem categorize_first_match:
  "(\<forall>i<length CATEGORY_PATTERNS.
      re_search (fst (CATEGORY_PATTERNS ! i)) (upper name)
      \<and> (\<forall>j<i. \<not> re_search (fst (CATEGORY_PATTERNS ! j)) (upper name))
      \<longrightarrow> categorize_package name = snd (CATEGORY_PATTERNS ! i))
   \<and> ((\<forall>i<length CATEGORY_PATTERNS. \<not> re_search (fst (CATEGORY_PATTERNS ! i)) (upper name))
      \<longrightarrow> categorize_package name = ''Other Services'')"
  unfolding categorize_package_def
  using first_category_first_match first_category_no_match by blast

theorem categorize_first_match_witness:
  "re_search (fst (CATEGORY_PATTERNS ! 1)) (upper ''Whole-house surge'')
   \<and> \<not> re_search (fst (CATEGORY_PATTERNS ! 0)) (upper ''Whole-house surge'')
   \<and> categorize_package ''Whole-house surge'' = snd (CATEGORY_PATTERNS ! 1)"
proof -
  have len: "1 < length CATEGORY_PATTERNS"
    by (simp add: CATEGORY_PATTERNS_def)
  have hit: "re_search (fst (CATEGORY_PATTERNS ! 1)) (upper ''Whole-house surge'')"
    by code_simp
  have miss: "\<not> re_search (fst (CATEGORY_PATTERNS ! 0)) (upper ''Whole-house surge'')"
    by code_simp
  from miss have before: "\<forall>j<1. \<not> re_search (fst (CATEGORY_PATTERNS ! j)) (upper ''Whole-house surge'')"
    by simp
  from categorize_first_match[of "''Whole-house surge''"] len hit before
  have "categorize_package ''Whole-house surge'' = snd (CATEGORY_PATTERNS ! 1)"
    by blast
  with hit miss show ?thesis by blast
qed

section \<open>Substrings, and the rule that shadows rule 13\<close>

lemma startswith_iff: "startswith s w = (\<exists>b. s = w @ b)"
  by (induction s w rule: startswith.induct) auto

lemma contains_iff: "contains w s = (\<exists>a b. s = a @ w @ b)"
proof (induction s)
  case Nil
  then show ?case by auto
next
  case (Cons c s)
  show ?case
  proof
    assume "contains w (c # s)"
    then consider "startswith (c # s) w" | "contains w s" by auto
    then show "\<exists>a b. c # s = a @ w @ b"
    proof cases
      case 1
      then obtain b where "c # s = w @ b" by (auto simp: startswith_iff)
      then have "c # s = [] @ w @ b" by simp
      then show ?thesis by blast
    next
      case 2
      with Cons.IH obtain a b where "s = a @ w @ b" by blast
      then have "c # s = (c # a) @ w @ b" by simp
      then show ?thesis by blast
    qed
  next
    assume "\<exists>a b. c # s = a @ w @ b"
    then obtain a b where ab: "c # s = a @ w @ b" by blast
    show "contains w (c # s)"
    proof (cases a)
      case Nil
      with ab have "startswith (c # s) w" by (auto simp: startswith_iff)
      then show ?thesis by simp
    next
      case (Cons d a')
      with ab have "s = a' @ w @ b" by simp
      with Cons.IH have "contains w s" by blast
      then show ?thesis by simp
    qed
  qed
qed

lemma contains_FAN:
  assumes "contains ''BATH FAN'' s \<or> contains ''VENT FAN'' s"
  shows "contains ''FAN'' s"
proof -
  from assms obtain a b where "s = a @ ''BATH FAN'' @ b \<or> s = a @ ''VENT FAN'' @ b"
    by (auto simp: contains_iff)
  then have "s = (a @ ''BATH '') @ ''FAN'' @ b \<or> s = (a @ ''VENT '') @ ''FAN'' @ b" by auto
  then show ?thesis unfolding contains_iff by blast
qed

lemma startswith_Nil: "startswith [] w = (w = [])"
  by (cases w) simp_all

lemma re_search_Lit: "re_search (Lit w) s = contains w s"
  by (induction s) (simp_all add: startswith_Nil)

lemma re_search_Alt: "re_search (Alt a b) s = (re_search a s \<or> re_search b s)"
  by (induction s) auto

lemma fan_rule_before_bathrooms:
  assumes "contains ''BATH FAN'' (upper name) \<or> contains ''VENT FAN'' (upper name)"
  shows "categorize_package name \<noteq> ''Bathrooms''"
proof -
  from assms have "contains ''FAN'' (upper name)" by (rule contains_FAN)
  then have fan: "re_search (Alt (Lit ''FAN'') (Lit ''CEILING FAN'')) (upper name)"
    by (simp add: re_search_Alt re_search_Lit)
  show ?thesis
    unfolding categorize_package_def CATEGORY_PATTERNS_def
    using fan by (simp del: re_search.simps)
qed

text \<open>
  C5. The claim is that a name containing \<^verbatim>\<open>BATH FAN\<close> or \<^verbatim>\<open>VENT FAN\<close> is assigned
  \<^verbatim>\<open>Bathrooms\<close>, as rule 13 of the table says. The code assigns \<^verbatim>\<open>Ceiling Fans\<close>: rule 12,
  \<^verbatim>\<open>(FAN|CEILING FAN)\<close>, stands before rule 13 and finds \<^verbatim>\<open>FAN\<close> in every such name, so
  that no such name is ever assigned \<^verbatim>\<open>Bathrooms\<close> (\<open>fan_rule_before_bathrooms\<close>).
\<close>

theorem bath_fan_is_ceiling_fan:
  "categorize_package ''BATH FAN INSTALL'' = ''Ceiling Fans''
   \<and> categorize_package ''Vent fan'' = ''Ceiling Fans''"
  by code_simp

text \<open>
  C10. \<^verbatim>\<open>Other Services\<close> has no entry in the icon table, so its icon is the default
  \<^verbatim>\<open>package\<close>; every group of the Aggregator gets the icon of its name; and the
  Categorizer does return \<^verbatim>\<open>Other Services\<close>, for instance for \<^verbatim>\<open>TROUBLESHOOTING\<close>.
\<close>

theorem other_services_default_icon:
  "map_of icons ''Other Services'' = None
   \<and> get_category_icon ''Other Services'' = ''package''
   \<and> map icon (organize_by_category pkgs)
       = map (\<lambda>g. get_category_icon (grp_name g)) (organize_by_category pkgs)
   \<and> categorize_package ''TROUBLESHOOTING'' = ''Other Services''
   \<and> get_category_icon (categorize_package ''TROUBLESHOOTING'') = ''package''"
proof -
  have a: "map_of icons ''Other Services'' = None" by code_simp
  have b: "get_category_icon ''Other Services'' = ''package''" by code_simp
  have c: "map icon (organize_by_category pkgs)
       = map (\<lambda>g. get_category_icon (grp_name g)) (organize_by_category pkgs)"
    by (simp add: organize_by_category_def make_group_def split_def)
  have d: "categorize_package ''TROUBLESHOOTING'' = ''Other Services''" by code_simp
  from a b c d show ?thesis by simp
qed

section \<open>The Record Normalizer: no exception, a filter and a map\<close>










section \<open>Comparisons with zero\<close>

lemma pf_not_le_zero: "\<not> pf_le a (Fin 0) \<Longrightarrow> a \<noteq> NaN \<Longrightarrow> pf_lt (Fin 0) a"
  by (cases a) auto



lemma pf_lt_zero_not_le: "pf_lt (Fin 0) a \<Longrightarrow> \<not> pf_le a (Fin 0)"
  by (cases a) auto

lemma claimed_emits_imp_emits: "claimed_emits cm row \<Longrightarrow> emits cm row"
  by (simp add: claimed_emits_def emits_def pf_lt_zero_not_le)

lemma emits_eq_claimed_unless_nan:
  "clean_price (field_value cm row ''price'' Zero Str) \<noteq> NaN \<Longrightarrow>
   emits cm row = claimed_emits cm row"
  using pf_not_le_zero pf_lt_zero_not_le
  by (auto simp: claimed_emits_def emits_def)

text \<open>
  C1. The claim is that a row is emitted exactly when its name is not blank, its
  mobile-visibility value does not contain \<^verbatim>\<open>no\<close>, its cleaned price is greater than 0
  and it is wide enough (\<^const>\<open>claimed_emits\<close>). The code emits a row exactly when
  \<^const>\<open>emits\<close> holds (\<open>process_crm_data_eq\<close>), and the two agree on every row whose
  cleaned price is not NaN (\<open>emits_eq_claimed_unless_nan\<close>). They differ on NaN: a
  price cell \<^verbatim>\<open>nan\<close> is cleaned to NaN, for which the guard \<^verbatim>\<open>price <= 0\<close> of the source
  and the claim's \<^verbatim>\<open>price > 0\<close> are both false, and the record is emitted although its
  price is not greater than 0.
\<close>

theorem nan_price_is_emitted:
  "clean_price (Str ''nan'') = NaN
   \<and> \<not> pf_lt (Fin 0) (clean_price (Str ''nan''))
   \<and> process_crm_data [[''Name'', ''Sales Price''], [''GFCI'', ''nan'']]
       = Inr [\<lparr> pkg_id = [], pkg_name = ''GFCI'', displayName = ''GFCI'', price = NaN,
                 laborHours = Fin 0, description = [], category = ''GFCI Protection'',
                 tier = None, upsellTo = [] \<rparr>]"
  by code_simp




section \<open>The Header Resolver: the last column of a key wins\<close>

lemma header_loop_unset:
  "(\<forall>h\<in>set hs. header_key (lower h) \<noteq> Some k) \<Longrightarrow>
   map_of (header_loop cm i hs) k = map_of cm k"
proof (induction hs arbitrary: cm i)
  case Nil
  then show ?case by simp
next
  case (Cons h hs)
  from Cons.prems have rest: "\<forall>h\<in>set hs. header_key (lower h) \<noteq> Some k" by simp
  from Cons.prems have here: "header_key (lower h) \<noteq> Some k" by simp
  show ?case
  proof (cases "header_key (lower h)")
    case None
    then show ?thesis using Cons.IH[OF rest] by simp
  next
    case (Some k')
    with here have "k' \<noteq> k" by simp
    then have "map_of (AList.update k' i cm) k = map_of cm k"
      by (simp add: update_conv')
    then show ?thesis using Cons.IH[OF rest, of "AList.update k' i cm" "Suc i"] Some by simp
  qed
qed

lemma header_loop_last:
  "j < length hs \<Longrightarrow> header_key (lower (hs ! j)) = Some k \<Longrightarrow>
   (\<forall>j'. j < j' \<and> j' < length hs \<longrightarrow> header_key (lower (hs ! j')) \<noteq> Some k) \<Longrightarrow>
   map_of (header_loop cm i hs) k = Some (i + j)"
proof (induction hs arbitrary: cm i j)
  case Nil
  then show ?case by simp
next
  case (Cons h hs)
  show ?case
  proof (cases j)
    case 0
    with Cons.prems have key: "header_key (lower h) = Some k" by simp
    have "\<forall>x\<in>set hs. header_key (lower x) \<noteq> Some k"
    proof
      fix x assume "x \<in> set hs"
      then obtain n where n: "n < length hs" "hs ! n = x" by (auto simp: in_set_conv_nth)
      with Cons.prems(3) 0 have "header_key (lower ((h # hs) ! Suc n)) \<noteq> Some k" by auto
      with n show "header_key (lower x) \<noteq> Some k" by simp
    qed
    from header_loop_unset[OF this, of "AList.update k i cm" "Suc i"] key 0
    show ?thesis by (simp add: update_conv')
  next
    case (Suc n)
    with Cons.prems have a: "n < length hs" and b: "header_key (lower (hs ! n)) = Some k" by auto
    have c: "\<forall>j'. n < j' \<and> j' < length hs \<longrightarrow> header_key (lower (hs ! j')) \<noteq> Some k"
    proof (intro allI impI)
      fix j' assume "n < j' \<and> j' < length hs"
      with Cons.prems(3) Suc have "header_key (lower ((h # hs) ! Suc j')) \<noteq> Some k" by auto
      then show "header_key (lower (hs ! j')) \<noteq> Some k" by simp
    qed
    from Cons.IH[OF a b c] Suc show ?thesis by simp
  qed
qed

text \<open>
  C3, as claimed, fails: the loop assigns \<^verbatim>\<open>col_map[key] = i\<close> at every column of the
  key, so a later column overwrites an earlier one.
\<close>

theorem first_column_does_not_win:
  "header_key (lower (strip ''Sales Price'')) = Some ''price''
   \<and> header_key (lower (strip ''Online Sales Price'')) = Some ''price''
   \<and> map_of (resolve_header [''Name'', ''Sales Price'', ''Online Sales Price'']) ''price'' = Some 2"
  by code_simp

text \<open>
  C3, amended. When several header columns set the same key, the key maps to the last
  of them: if column \<open>j\<close> sets key \<open>k\<close> (its stripped, lowercased text is the first
  pattern of the chain it matches) and no later column does, the header map assigns
  \<open>k\<close> the index \<open>j\<close>.
\<close>

theorem header_last_match_wins:
  "j < length row0 \<Longrightarrow> header_key (lower (strip (row0 ! j))) = Some k \<Longrightarrow>
   (\<forall>j'. j < j' \<and> j' < length row0 \<longrightarrow> header_key (lower (strip (row0 ! j'))) \<noteq> Some k) \<Longrightarrow>
   map_of (resolve_header row0) k = Some j"
proof -
  assume a: "j < length row0" and b: "header_key (lower (strip (row0 ! j))) = Some k"
    and c: "\<forall>j'. j < j' \<and> j' < length row0 \<longrightarrow> header_key (lower (strip (row0 ! j'))) \<noteq> Some k"
  from a have a': "j < length (map strip row0)" by simp
  from a b have b': "header_key (lower (map strip row0 ! j)) = Some k" by simp
  from c have c': "\<forall>j'. j < j' \<and> j' < length (map strip row0)
      \<longrightarrow> header_key (lower (map strip row0 ! j')) \<noteq> Some k" by simp
  from header_loop_last[OF a' b' c', of "[]" 0] show ?thesis
    by (simp add: resolve_header_def)
qed

theorem header_last_match_wins_witness:
  "header_key (lower (strip ''Sales Price'')) = Some ''price''
   \<and> header_key (lower (strip ''Online Sales Price '')) = Some ''price''
   \<and> header_key (lower (strip ''Name'')) \<noteq> Some ''price''
   \<and> map_of (resolve_header [''Sales Price'', ''Online Sales Price '', ''Name'']) ''price'' = Some 1"
proof -
  define row0 where "row0 = [''Sales Price'', ''Online Sales Price '', ''Name'']"
  have k0: "header_key (lower (strip ''Sales Price'')) = Some ''price''" by code_simp
  have k1: "header_key (lower (strip ''Online Sales Price '')) = Some ''price''" by code_simp
  have k2: "header_key (lower (strip ''Name'')) \<noteq> Some ''price''" by code_simp
  have a: "1 < length row0" by (simp add: row0_def)
  have b: "header_key (lower (strip (row0 ! 1))) = Some ''price''" using k1 by (simp add: row0_def)
  have c: "\<forall>j'. 1 < j' \<and> j' < length row0 \<longrightarrow> header_key (lower (strip (row0 ! j'))) \<noteq> Some ''price''"
  proof (intro allI impI)
    fix j' assume "1 < j' \<and> j' < length row0"
    then have "j' = 2" by (simp add: row0_def)
    with k2 show "header_key (lower (strip (row0 ! j'))) \<noteq> Some ''price''" by (simp add: row0_def)
  qed
  from header_last_match_wins[OF a b c] have "map_of (resolve_header row0) ''price'' = Some 1" .
  with k0 k1 k2 show ?thesis unfolding row0_def by blast
qed

section \<open>Unresolved fields\<close>







section \<open>The spreadsheet reader without a table\<close>

lemma iter_self: "e \<in> set (iter e)"
  by (cases e) simp

lemma iter_trans: "w \<in> set (iter r) \<Longrightarrow> set (iter w) \<subseteq> set (iter r)"
proof (induction r)
  case (Element t x cs)
  show ?case
  proof (cases "w = Element t x cs")
    case True
    then show ?thesis by simp
  next
    case False
    with Element.prems obtain c where c: "c \<in> set cs" "w \<in> set (iter c)" by auto
    from Element.IH[OF c] have "set (iter w) \<subseteq> set (iter c)" .
    with c(1) show ?thesis by auto
  qed
qed

lemma contains_ss_Table: "contains ''Table'' (ss ''Table'')"
  by code_simp

lemma find_descendant_Table_None:
  assumes none: "\<forall>e\<in>set (iter r). \<not> contains ''Table'' (elem_tag e)" and w: "w \<in> set (iter r)"
  shows "find_descendant ''Table'' w = None"
proof -
  have "\<not> (\<exists>x. x \<in> set (tl (iter w)) \<and> elem_tag x = ss ''Table'')"
  proof
    assume "\<exists>x. x \<in> set (tl (iter w)) \<and> elem_tag x = ss ''Table''"
    then obtain x where x: "x \<in> set (tl (iter w))" "elem_tag x = ss ''Table''" by blast
    from x(1) have "x \<in> set (iter w)" by (rule list.set_sel(2)[rotated]) (cases w, simp)
    with iter_trans[OF w] have "x \<in> set (iter r)" by blast
    with none have "\<not> contains ''Table'' (elem_tag x)" by blast
    with x(2) contains_ss_Table show False by simp
  qed
  then show ?thesis by (simp add: find_descendant_def find_None_iff)
qed

lemma find_in_set: "List.find P xs = Some x \<Longrightarrow> x \<in> set xs"
  by (auto simp: find_Some_iff)

lemma parse_xml_no_table:
  assumes none: "\<forall>e\<in>set (iter r). \<not> contains ''Table'' (elem_tag e)"
  shows "parse_xml_spreadsheet (Inr r) = Inl (ValueError ''Could not find Table element in XML'')"
proof -
  define worksheet where "worksheet =
    (case find_descendant ''Worksheet'' r of Some w \<Rightarrow> Some w | None \<Rightarrow> find_by_word ''Worksheet'' r)"
  have ws: "w \<in> set (iter r)" if "worksheet = Some w" for w
  proof (cases "find_descendant ''Worksheet'' r")
    case None
    with that have "find_by_word ''Worksheet'' r = Some w" by (simp add: worksheet_def)
    then show ?thesis unfolding find_by_word_def by (rule find_in_set)
  next
    case (Some w')
    with that have "find_descendant ''Worksheet'' r = Some w" by (simp add: worksheet_def)
    then have "w \<in> set (tl (iter r))" unfolding find_descendant_def by (rule find_in_set)
    then show ?thesis by (rule list.set_sel(2)[rotated]) (cases r, simp)
  qed
  have t0: "(case worksheet of Some w \<Rightarrow> find_descendant ''Table'' w | None \<Rightarrow> None) = None"
  proof (cases worksheet)
    case None
    then show ?thesis by simp
  next
    case (Some w)
    with find_descendant_Table_None[OF none ws[OF Some]] show ?thesis by simp
  qed
  have t1: "find_by_word ''Table'' r = None"
    using none by (simp add: find_by_word_def find_None_iff)
  from t0[unfolded worksheet_def] t1 show ?thesis
    by (simp add: parse_xml_spreadsheet_def and_then_def Let_def)
qed

lemma parse_xml_some_table:
  assumes some: "\<exists>e\<in>set (iter r). contains ''Table'' (elem_tag e)"
  shows "\<exists>rows. parse_xml_spreadsheet (Inr r) = Inr rows"
proof -
  from some have "find_by_word ''Table'' r \<noteq> None"
    by (auto simp: find_by_word_def find_None_iff)
  then obtain t where t: "find_by_word ''Table'' r = Some t" by blast
  show ?thesis
    unfolding parse_xml_spreadsheet_def and_then_def Let_def
    by (simp add: t split: option.splits)
qed

text \<open>
  C8. A file sniffed as spreadsheet markup whose tree has no element with \<^verbatim>\<open>Table\<close> in
  its tag (so neither the namespaced lookup nor the scan by tag finds a table) makes
  \<^verbatim>\<open>parse_xml_spreadsheet\<close> raise its \<^verbatim>\<open>ValueError\<close>; \<^verbatim>\<open>main\<close> ends with that exception and
  the output file is what it was before the run: nothing is written.
\<close>

theorem no_table_aborts_before_output:
  "contains ''<?xml'' (take 100 content) \<or> contains ''<Workbook'' (take 100 content) \<Longrightarrow>
   ET_parse content = Inr xml_root \<Longrightarrow>
   \<forall>e\<in>set (iter xml_root). \<not> contains ''Table'' (elem_tag e) \<Longrightarrow>
   main ET_parse csv_rows json_dump content out_file
     = (Inl (ValueError ''Could not find Table element in XML''), out_file)"
proof -
  assume sniff: "contains ''<?xml'' (take 100 content) \<or> contains ''<Workbook'' (take 100 content)"
    and parsed: "ET_parse content = Inr xml_root"
    and none: "\<forall>e\<in>set (iter xml_root). \<not> contains ''Table'' (elem_tag e)"
  from parse_xml_no_table[OF none] parsed
  have "parse_xml_spreadsheet (ET_parse content)
      = Inl (ValueError ''Could not find Table element in XML'')" by simp
  with sniff show ?thesis
    by (simp add: main_def and_then_def Let_def)
qed

theorem no_table_aborts_before_output_witness:
  "contains ''<?xml'' (take 100 ''<?xml version=1.0?><Workbook><Worksheet/></Workbook>'')
   \<and> list_all (\<lambda>e. \<not> contains ''Table'' (elem_tag e))
        (iter (Element ''Workbook'' None [Element ''Worksheet'' None []]))
   \<and> main (\<lambda>c. Inr (Element ''Workbook'' None [Element ''Worksheet'' None []]))
          (\<lambda>c. Inr []) (\<lambda>d. ''{}'')
          ''<?xml version=1.0?><Workbook><Worksheet/></Workbook>'' (Some ''previous'')
       = (Inl (ValueError ''Could not find Table element in XML''), Some ''previous'')"
proof -
  define content where "content = ''<?xml version=1.0?><Workbook><Worksheet/></Workbook>''"
  define tree where "tree = Element ''Workbook'' None [Element ''Worksheet'' None []]"
  have sniff: "contains ''<?xml'' (take 100 content)" unfolding content_def by code_simp
  have all: "list_all (\<lambda>e. \<not> contains ''Table'' (elem_tag e)) (iter tree)"
    unfolding tree_def by code_simp
  then have none: "\<forall>e\<in>set (iter tree). \<not> contains ''Table'' (elem_tag e)"
    by (simp add: list_all_iff)
  from sniff have sniff': "contains ''<?xml'' (take 100 content) \<or> contains ''<Workbook'' (take 100 content)"
    by simp
  have parsed: "(\<lambda>c. Inr tree) content = Inr tree" by simp
  from no_table_aborts_before_output[of content "\<lambda>c. Inr tree" tree "\<lambda>c. Inr []" "\<lambda>d. ''{}''" "Some ''previous''",
      OF sniff' parsed none]
  have "main (\<lambda>c. Inr tree) (\<lambda>c. Inr []) (\<lambda>d. ''{}'') content (Some ''previous'')
       = (Inl (ValueError ''Could not find Table element in XML''), Some ''previous'')" .
  with sniff all show ?thesis unfolding content_def tree_def by blast
qed

section \<open>The order of floats that are numbers\<close>








lemma pf_le_not_NaN: "pf_le a b \<Longrightarrow> a \<noteq> NaN \<and> b \<noteq> NaN"
  by (cases a; cases b) simp_all

section \<open>The stable sort by price\<close>











section \<open>The running minimum\<close>




section \<open>The dictionary of categories\<close>



lemma distinct_add_package:
  "distinct (map fst acc) \<Longrightarrow> distinct (map fst (add_package p acc))"
  by (simp add: add_package_def distinct_update split_def Let_def)

lemma distinct_fold_add_package:
  "distinct (map fst acc) \<Longrightarrow> distinct (map fst (fold add_package pkgs acc))"
  by (induction pkgs arbitrary: acc) (simp_all add: distinct_add_package)







section \<open>Running twice, and the order a dictionary is traversed in\<close>

lemma main_rerun:
  "main ET_parse csv_rows json_dump content (snd (main ET_parse csv_rows json_dump content out_file))
     = main ET_parse csv_rows json_dump content out_file"
  by (simp add: main_def Let_def split: sum.splits)

lemma filter_same_key:
  "distinct (map f xs) \<Longrightarrow> k \<in> set xs \<Longrightarrow> filter (\<lambda>x. f k = f x) xs = [k]"
proof (induction xs)
  case Nil
  then show ?case by simp
next
  case (Cons x xs)
  show ?case
  proof (cases "k = x")
    case True
    from Cons.prems(1) have "\<forall>y\<in>set xs. f x \<noteq> f y" by auto
    then have "filter (\<lambda>y. f x = f y) xs = []" by (auto simp: filter_empty_conv)
    with True show ?thesis by simp
  next
    case False
    with Cons.prems have k: "k \<in> set xs" by simp
    then have "f k \<in> f ` set xs" by simp
    moreover from Cons.prems(1) have "f x \<notin> f ` set xs" by simp
    ultimately have "f k \<noteq> f x" by metis
    with Cons.IH k Cons.prems(1) show ?thesis by simp
  qed
qed

lemma sort_key_any_order:
  assumes "mset ys = mset xs" and "distinct (map f xs)"
  shows "sort_key f ys = sort_key f xs"
proof (rule properties_for_sort_key)
  show "mset (sort_key f xs) = mset ys" using assms(1) by simp
  show "sorted (map f (sort_key f xs))" by simp
  fix k assume k: "k \<in> set (sort_key f xs)"
  have dx: "distinct (map f (sort_key f xs))"
    using assms(2) by (metis mset_eq_imp_distinct_iff mset_map mset_sort)
  have dy: "distinct (map f ys)"
    using assms by (metis mset_eq_imp_distinct_iff mset_map)
  from k have ky: "k \<in> set ys" using assms(1) by (metis set_sort mset_eq_setD)
  show "filter (\<lambda>x. f k = f x) (sort_key f xs) = filter (\<lambda>x. f k = f x) ys"
    using filter_same_key[OF dx k] filter_same_key[OF dy ky] by simp
qed

text \<open>
  C9. The pipeline is deterministic. Run again on the same input, from the state the
  first run left, \<^verbatim>\<open>main\<close> ends the same way and leaves the same output file; the
  document depends on the rows alone. Nor does it depend on the order in which the
  category dictionary hands out its items: from any enumeration of the same items,
  sorting and grouping give the groups \<^verbatim>\<open>organize_by_category\<close> returns.
\<close>

theorem rerun_gives_same_document:
  "main ET_parse csv_rows json_dump content (snd (main ET_parse csv_rows json_dump content out_file))
     = main ET_parse csv_rows json_dump content out_file
   \<and> (mset items = mset (fold add_package pkgs []) \<longrightarrow>
        map make_group (sorted_items items) = organize_by_category pkgs)"
proof -
  have "map make_group (sorted_items items) = organize_by_category pkgs"
    if "mset items = mset (fold add_package pkgs [])"
  proof -
    have "distinct (map fst (fold add_package pkgs []))"
      by (rule distinct_fold_add_package) simp
    with that have "sort_key fst items = sort_key fst (fold add_package pkgs [])"
      by (rule sort_key_any_order)
    then show ?thesis by (simp add: organize_by_category_def sorted_items_def)
  qed
  with main_rerun show ?thesis by blast
qed

theorem rerun_gives_same_document_witness:
  "mset (rev (fold add_package
     [\<lparr> pkg_id = ''1'', pkg_name = ''X'', displayName = ''X'', price = Fin 30, laborHours = Fin 0,
         description = [], category = ''Other Services'', tier = None, upsellTo = [] \<rparr>,
      \<lparr> pkg_id = ''2'', pkg_name = ''BREAKER'', displayName = ''BREAKER'', price = Fin 8, laborHours = Fin 0,
         description = [], category = ''Breakers'', tier = None, upsellTo = [] \<rparr>] []))
    = mset (fold add_package
     [\<lparr> pkg_id = ''1'', pkg_name = ''X'', displayName = ''X'', price = Fin 30, laborHours = Fin 0,
         description = [], category = ''Other Services'', tier = None, upsellTo = [] \<rparr>,
      \<lparr> pkg_id = ''2'', pkg_name = ''BREAKER'', displayName = ''BREAKER'', price = Fin 8, laborHours = Fin 0,
         description = [], category = ''Breakers'', tier = None, upsellTo = [] \<rparr>] [])
   \<and> map fst (rev (fold add_package
     [\<lparr> pkg_id = ''1'', pkg_name = ''X'', displayName = ''X'', price = Fin 30, laborHours = Fin 0,
         description = [], category = ''Other Services'', tier = None, upsellTo = [] \<rparr>,
      \<lparr> pkg_id = ''2'', pkg_name = ''BREAKER'', displayName = ''BREAKER'', price = Fin 8, laborHours = Fin 0,
         description = [], category = ''Breakers'', tier = None, upsellTo = [] \<rparr>] []))
      = [''Breakers'', ''Other Services'']
   \<and> map fst (fold add_package
     [\<lparr> pkg_id = ''1'', pkg_name = ''X'', displayName = ''X'', price = Fin 30, laborHours = Fin 0,
         description = [], category = ''Other Services'', tier = None, upsellTo = [] \<rparr>,
      \<lparr> pkg_id = ''2'', pkg_name = ''BREAKER'', displayName = ''BREAKER'', price = Fin 8, laborHours = Fin 0,
         description = [], category = ''Breakers'', tier = None, upsellTo = [] \<rparr>] [])
      = [''Other Services'', ''Breakers'']
   \<and> map make_group (sorted_items (rev (fold add_package
     [\<lparr> pkg_id = ''1'', pkg_name = ''X'', displayName = ''X'', price = Fin 30, laborHours = Fin 0,
         description = [], category = ''Other Services'', tier = None, upsellTo = [] \<rparr>,
      \<lparr> pkg_id = ''2'', pkg_name = ''BREAKER'', displayName = ''BREAKER'', price = Fin 8, laborHours = Fin 0,
         description = [], category = ''Breakers'', tier = None, upsellTo = [] \<rparr>] [])))
    = organize_by_category
     [\<lparr> pkg_id = ''1'', pkg_name = ''X'', displayName = ''X'', price = Fin 30, laborHours = Fin 0,
         description = [], category = ''Other Services'', tier = None, upsellTo = [] \<rparr>,
      \<lparr> pkg_id = ''2'', pkg_name = ''BREAKER'', displayName = ''BREAKER'', price = Fin 8, laborHours = Fin 0,
         description = [], category = ''Breakers'', tier = None, upsellTo = [] \<rparr>]"
proof -
  define W where "W =
     [\<lparr> pkg_id = ''1'', pkg_name = ''X'', displayName = ''X'', price = Fin 30, laborHours = Fin 0,
         description = [], category = ''Other Services'', tier = None, upsellTo = [] \<rparr>,
      \<lparr> pkg_id = ''2'', pkg_name = ''BREAKER'', displayName = ''BREAKER'', price = Fin 8, laborHours = Fin 0,
         description = [], category = ''Breakers'', tier = None, upsellTo = [] \<rparr>]"
  have same: "mset (rev (fold add_package W [])) = mset (fold add_package W [])" by simp
  have order1: "map fst (rev (fold add_package W [])) = [''Breakers'', ''Other Services'']"
    unfolding W_def by code_simp
  have order2: "map fst (fold add_package W []) = [''Other Services'', ''Breakers'']"
    unfolding W_def by code_simp
  from rerun_gives_same_document[of "\<lambda>c. Inl IndexError" "\<lambda>c. Inr []" "\<lambda>d. []" "[]" None
      "rev (fold add_package W [])" W] same
  have "map make_group (sorted_items (rev (fold add_package W []))) = organize_by_category W"
    by blast
  with same order1 order2 show ?thesis unfolding W_def by blast
qed

end
